theory Spec2Isabelle
  imports Main
begin

section \<open>The Django example application\<close>

text \<open>
  The application is three modules: \<^verbatim>\<open>myapp/urls.py\<close> (the list \<^verbatim>\<open>urlpatterns\<close>),
  \<^verbatim>\<open>myapp/views.py\<close> (the views \<^verbatim>\<open>ping\<close> and \<^verbatim>\<open>health\<close>) and \<^verbatim>\<open>myapp/settings.py\<close>
  (among others \<^verbatim>\<open>DEBUG\<close> and the middleware list, which holds \<^verbatim>\<open>CommonMiddleware\<close>
  alone). They are embedded below together with the part of Django they run on:
  \<^verbatim>\<open>django.urls.path\<close>, the URL resolver, \<^verbatim>\<open>JsonResponse\<close> with \<^verbatim>\<open>json.dumps\<close>,
  \<^verbatim>\<open>CommonMiddleware\<close>, and the handler that turns a request into a response. A
  request is one the server has parsed, with a \<^verbatim>\<open>Host\<close> header of valid form.
\<close>

subsection \<open>Python values, requests and responses\<close>

text \<open>
  The Python values that reach \<^verbatim>\<open>JsonResponse\<close>: a \<^verbatim>\<open>str\<close>, or a \<^verbatim>\<open>dict\<close> with \<^verbatim>\<open>str\<close>
  keys, kept as an association list in insertion order. A \<^verbatim>\<open>str\<close> is a list of
  characters with code points below 256.
\<close>

datatype pyval = Str string | Dict "(string \<times> pyval) list"

text \<open>
  Of a request: \<^verbatim>\<open>request.method\<close> (which Django holds in upper case),
  \<^verbatim>\<open>request.path_info\<close>, the headers in \<^verbatim>\<open>request.META\<close> and \<^verbatim>\<open>request.body\<close>.
\<close>

record HttpRequest =
  http_method :: string
  path_info :: string
  META :: "(string \<times> string) list"
  body :: string

record HttpResponse =
  status_code :: int
  headers :: "(string \<times> string) list"
  content :: string

text \<open>The exceptions that the embedded code can raise.\<close>

datatype exn = Resolver404 | TypeError | RuntimeError

text \<open>
  A view is a Python function object; the URL table holds references to the two
  functions of \<^verbatim>\<open>views.py\<close>.
\<close>

datatype view = views_ping | views_health

record URLPattern =
  route :: string
  callback :: view
  name :: string

record ResolverMatch =
  func :: view
  url_name :: string

text \<open>
  The state of the running process: the URL table that the resolver reads
  (\<^verbatim>\<open>URLResolver.url_patterns\<close>, taken from the urlconf module at startup), and
  everything else a Python function could read or write (\<open>extern\<close>).
\<close>

record 'w process =
  url_patterns :: "URLPattern list"
  extern :: 'w

text \<open>
  What the client gets: the response of a view; or the framework's permanent
  redirect (status 301) to the path with a slash appended; or the framework's own
  error page. Of the last two only the status is modelled.
\<close>

datatype reply = View_Response HttpResponse | Permanent_Redirect | Error_Page int

fun status :: "reply \<Rightarrow> int" where
  "status (View_Response r) = status_code r"
| "status Permanent_Redirect = 301"
| "status (Error_Page c) = c"

subsection \<open>\<^verbatim>\<open>json.dumps\<close> and \<^verbatim>\<open>JsonResponse\<close>\<close>

definition hex_digit :: "nat \<Rightarrow> char" where
  "hex_digit n = ''0123456789abcdef'' ! (n mod 16)"

text \<open>
  \<^verbatim>\<open>json.encoder.py_encode_basestring_ascii\<close>, one character: the quote and the
  backslash are escaped, the five control characters have short forms, every other
  character outside space..tilde is written as a \<^verbatim>\<open>\u00XX\<close> escape.
\<close>

definition escape_char :: "char \<Rightarrow> string" where
  "escape_char c =
     (let n = (of_char c :: nat) in
      if n = 0x22 then [CHR 0x5C, CHR 0x22]
      else if n = 0x5C then [CHR 0x5C, CHR 0x5C]
      else if n = 0x08 then [CHR 0x5C, CHR ''b'']
      else if n = 0x0C then [CHR 0x5C, CHR ''f'']
      else if n = 0x0A then [CHR 0x5C, CHR ''n'']
      else if n = 0x0D then [CHR 0x5C, CHR ''r'']
      else if n = 0x09 then [CHR 0x5C, CHR ''t'']
      else if 0x20 \<le> n \<and> n \<le> 0x7E then [c]
      else [CHR 0x5C, CHR ''u'', CHR ''0'', CHR ''0'', hex_digit (n div 16), hex_digit (n mod 16)])"

definition encode_str :: "string \<Rightarrow> string" where
  "encode_str s = [CHR 0x22] @ concat (map escape_char s) @ [CHR 0x22]"

text \<open>
  \<^verbatim>\<open>json.dumps\<close> with its default separators \<^verbatim>\<open>", "\<close> and \<^verbatim>\<open>": "\<close>; the items of a
  dict are written in insertion order.
\<close>

fun json_dumps :: "pyval \<Rightarrow> string"
  and dumps_items :: "(string \<times> pyval) list \<Rightarrow> string" where
  "json_dumps (Str s) = encode_str s"
| "json_dumps (Dict kvs) = ''{'' @ dumps_items kvs @ ''}''"
| "dumps_items [] = []"
| "dumps_items [(k, v)] = encode_str k @ '': '' @ json_dumps v"
| "dumps_items ((k, v) # kv # kvs) =
     encode_str k @ '': '' @ json_dumps v @ '', '' @ dumps_items (kv # kvs)"

text \<open>
  \<^verbatim>\<open>JsonResponse(data)\<close>: with \<^verbatim>\<open>safe=True\<close> (the default) anything but a dict raises
  \<^verbatim>\<open>TypeError\<close>; otherwise an \<^verbatim>\<open>HttpResponse\<close> with the default status 200, the
  content type \<^verbatim>\<open>application/json\<close> and the serialised data as content.
\<close>

definition JsonResponse :: "pyval \<Rightarrow> exn + HttpResponse" where
  "JsonResponse data =
     (case data of
        Dict kvs \<Rightarrow>
          Inr \<lparr>status_code = 200,
               headers = [(''Content-Type'', ''application/json'')],
               content = json_dumps data\<rparr>
      | Str s \<Rightarrow> Inl TypeError)"

subsection \<open>\<^verbatim>\<open>views.py\<close>\<close>

text \<open>
  \<^verbatim>\<open>def ping(request): return JsonResponse({'message': 'pong'})\<close> and
  \<^verbatim>\<open>def health(request): return JsonResponse({'status': 'ok'})\<close>. A call is a step
  of the process: it takes the request and the state and gives the result (a
  response, or the exception raised) and the state it leaves.
\<close>

definition ping :: "HttpRequest \<Rightarrow> 'w process \<Rightarrow> (exn + HttpResponse) \<times> 'w process" where
  "ping request s = (JsonResponse (Dict [(''message'', Str ''pong'')]), s)"

definition health :: "HttpRequest \<Rightarrow> 'w process \<Rightarrow> (exn + HttpResponse) \<times> 'w process" where
  "health request s = (JsonResponse (Dict [(''status'', Str ''ok'')]), s)"

text \<open>Calling through a reference to a view.\<close>

fun call :: "view \<Rightarrow> HttpRequest \<Rightarrow> 'w process \<Rightarrow> (exn + HttpResponse) \<times> 'w process" where
  "call views_ping = ping"
| "call views_health = health"

subsection \<open>\<^verbatim>\<open>urls.py\<close>\<close>

text \<open>
  \<^verbatim>\<open>django.urls.path(route, view, name=...)\<close> builds a URL pattern; it takes no HTTP
  method.
\<close>

definition path :: "string \<Rightarrow> view \<Rightarrow> string \<Rightarrow> URLPattern" where
  "path r v n = \<lparr>route = r, callback = v, name = n\<rparr>"

definition urlpatterns :: "URLPattern list" where
  "urlpatterns =
     [path ''ping/'' views_ping ''ping'',
      path ''health/'' views_health ''health'']"

subsection \<open>URL resolution\<close>

text \<open>
  A route holds path converters (\<^verbatim>\<open><int:pk>\<close>) only when it has an angle bracket; a
  route without one is literal. \<^verbatim>\<open>RoutePattern.match\<close> for a literal route at an
  endpoint is string equality with the rest of the path: the pattern is anchored at
  both ends. Routes with converters are outside the embedding; \<^verbatim>\<open>urls.py\<close> has none.
\<close>

definition literal_route :: "URLPattern \<Rightarrow> bool" where
  "literal_route p = (CHR ''<'' \<notin> set (route p))"

definition route_match :: "URLPattern \<Rightarrow> string \<Rightarrow> bool" where
  "route_match p new_path = (route p = new_path)"

text \<open>
  \<^verbatim>\<open>URLResolver.resolve\<close>, the loop over \<^verbatim>\<open>url_patterns\<close>: the first pattern
  that matches gives the \<^verbatim>\<open>ResolverMatch\<close>; when none does, \<^verbatim>\<open>Resolver404\<close> is raised.
\<close>

fun resolve_patterns :: "URLPattern list \<Rightarrow> string \<Rightarrow> exn + ResolverMatch" where
  "resolve_patterns [] new_path = Inl Resolver404"
| "resolve_patterns (p # ps) new_path =
     (if route_match p new_path then Inr \<lparr>func = callback p, url_name = name p\<rparr>
      else resolve_patterns ps new_path)"

text \<open>
  The root resolver's own pattern is the leading slash: it is taken off the path,
  and a path without it resolves to nothing. The arguments are the URL table and
  the path; the request's method is not among them.
\<close>

definition resolve :: "URLPattern list \<Rightarrow> string \<Rightarrow> exn + ResolverMatch" where
  "resolve ps p =
     (case p of
        [] \<Rightarrow> Inl Resolver404
      | c # new_path \<Rightarrow> if c = CHR ''/'' then resolve_patterns ps new_path else Inl Resolver404)"

subsection \<open>\<^verbatim>\<open>settings.py\<close>\<close>

text \<open>
  \<^verbatim>\<open>DEBUG = True\<close> is line 5 of \<^verbatim>\<open>settings.py\<close>. The module does not set
  \<^verbatim>\<open>APPEND_SLASH\<close>, \<^verbatim>\<open>PREPEND_WWW\<close> or \<^verbatim>\<open>DISALLOWED_USER_AGENTS\<close>, so Django's defaults
  hold: slashes are appended, no host is rewritten, and no user agent is refused.
\<close>

definition DEBUG :: bool where
  "DEBUG = True"

definition APPEND_SLASH :: bool where
  "APPEND_SLASH = True"

subsection \<open>Request handling\<close>

text \<open>
  \<^verbatim>\<open>response_for_exception\<close>: a \<^verbatim>\<open>Resolver404\<close> (an \<^verbatim>\<open>Http404\<close>) becomes the 404
  page, any other exception the 500 page.
\<close>

fun response_for_exception :: "exn \<Rightarrow> reply" where
  "response_for_exception Resolver404 = Error_Page 404"
| "response_for_exception TypeError = Error_Page 500"
| "response_for_exception RuntimeError = Error_Page 500"

text \<open>
  \<^verbatim>\<open>BaseHandler._get_response\<close>, the innermost layer: resolve \<^verbatim>\<open>request.path_info\<close>,
  call the view that was found with the request, and turn an exception into its
  error page. (With \<^verbatim>\<open>DEBUG\<close> on, Django answers an unresolved path over an empty
  URL table with its welcome page; the embedding is of tables that are not empty.)
\<close>

definition inner_get_response :: "HttpRequest \<Rightarrow> 'w process \<Rightarrow> reply \<times> 'w process" where
  "inner_get_response request s =
     (case resolve (url_patterns s) (path_info request) of
        Inl e \<Rightarrow> (response_for_exception e, s)
      | Inr m \<Rightarrow>
          (case call (func m) request s of
             (Inl e, s') \<Rightarrow> (response_for_exception e, s')
           | (Inr response, s') \<Rightarrow> (View_Response response, s')))"

text \<open>\<^verbatim>\<open>django.urls.is_valid_path\<close>: whether the path resolves.\<close>

definition is_valid_path :: "URLPattern list \<Rightarrow> string \<Rightarrow> bool" where
  "is_valid_path ps p = (case resolve ps p of Inl e \<Rightarrow> False | Inr m \<Rightarrow> True)"

definition endswith :: "string \<Rightarrow> char \<Rightarrow> bool" where
  "endswith p c = (case rev p of [] \<Rightarrow> False | d # ds \<Rightarrow> d = c)"

text \<open>
  \<^verbatim>\<open>CommonMiddleware.should_redirect_with_slash\<close>: the path has no final slash, does
  not resolve, and resolves with a slash appended. (Neither view sets
  \<^verbatim>\<open>should_append_slash\<close>, which therefore counts as true.)
\<close>

definition should_redirect_with_slash :: "HttpRequest \<Rightarrow> 'w process \<Rightarrow> bool" where
  "should_redirect_with_slash request s =
     (APPEND_SLASH \<and> \<not> endswith (path_info request) CHR ''/'' \<and>
      \<not> is_valid_path (url_patterns s) (path_info request) \<and>
      is_valid_path (url_patterns s) (path_info request @ ''/''))"

text \<open>Python's \<^verbatim>\<open>str\<close> of a natural number: its decimal digits.\<close>

fun str_of_nat :: "nat \<Rightarrow> string" where
  "str_of_nat n =
     (if n < 10 then [''0123456789'' ! n]
      else str_of_nat (n div 10) @ [''0123456789'' ! (n mod 10)])"

text \<open>
  The end of \<^verbatim>\<open>CommonMiddleware.process_response\<close>: a response without a
  \<^verbatim>\<open>Content-Length\<close> header gets one, the length of its content. Header names are
  compared as they are spelled.
\<close>

definition has_header :: "HttpResponse \<Rightarrow> string \<Rightarrow> bool" where
  "has_header response h = (h \<in> fst ` set (headers response))"

definition set_content_length :: "HttpResponse \<Rightarrow> HttpResponse" where
  "set_content_length response =
     (if has_header response ''Content-Length'' then response
      else response\<lparr>headers := headers response @
             [(''Content-Length'', str_of_nat (length (content response)))]\<rparr>)"

text \<open>
  \<^verbatim>\<open>CommonMiddleware.process_response\<close>: a 404 response for a path that should get a
  slash is replaced by a permanent redirect to the path with the slash; building
  that path (\<^verbatim>\<open>get_full_path_with_slash\<close>) raises \<^verbatim>\<open>RuntimeError\<close> when \<^verbatim>\<open>DEBUG\<close> is on
  and the method is one of DELETE, POST, PUT and PATCH. Any other response passes,
  with its content length set.
\<close>

definition process_response :: "HttpRequest \<Rightarrow> reply \<Rightarrow> 'w process \<Rightarrow> exn + reply" where
  "process_response request response s =
     (if status response = 404 \<and> should_redirect_with_slash request s then
        (if DEBUG \<and> http_method request \<in> set [''DELETE'', ''POST'', ''PUT'', ''PATCH'']
         then Inl RuntimeError
         else Inr Permanent_Redirect)
      else
        (case response of
           View_Response r \<Rightarrow> Inr (View_Response (set_content_length r))
         | Permanent_Redirect \<Rightarrow> Inr Permanent_Redirect
         | Error_Page c \<Rightarrow> Inr (Error_Page c)))"

text \<open>
  \<^verbatim>\<open>BaseHandler.get_response\<close>: the middleware chain, which is \<^verbatim>\<open>CommonMiddleware\<close>
  around the innermost layer. \<^verbatim>\<open>CommonMiddleware.process_request\<close> returns no response
  under the settings above, so the innermost layer always runs; its response goes
  through \<^verbatim>\<open>process_response\<close>, and an exception raised there becomes its error
  page.
\<close>

definition get_response :: "HttpRequest \<Rightarrow> 'w process \<Rightarrow> reply \<times> 'w process" where
  "get_response request s =
     (case inner_get_response request s of
        (response, s') \<Rightarrow>
          (case process_response request response s' of
             Inl e \<Rightarrow> (response_for_exception e, s')
           | Inr response' \<Rightarrow> (response', s')))"

text \<open>
  Startup reads the list of the urlconf module into the resolver; nothing is
  checked about the list. After startup the process runs one step per request.
\<close>

definition startup :: "URLPattern list \<Rightarrow> 'w \<Rightarrow> 'w process" where
  "startup ps w = \<lparr>url_patterns = ps, extern = w\<rparr>"

fun run :: "('i \<Rightarrow> 's \<Rightarrow> 'a \<times> 's) \<Rightarrow> 'i list \<Rightarrow> 's \<Rightarrow> 'a list \<times> 's" where
  "run step [] s = ([], s)"
| "run step (r # rs) s =
     (case step r s of (x, s') \<Rightarrow> (case run step rs s' of (xs, s'') \<Rightarrow> (x # xs, s'')))"

definition serve :: "HttpRequest list \<Rightarrow> 'w process \<Rightarrow> reply list \<times> 'w process" where
  "serve = run get_response"

text \<open>One invocation of a view, given as the reference and the request.\<close>

definition invoke :: "view \<times> HttpRequest \<Rightarrow> 'w process \<Rightarrow> (exn + HttpResponse) \<times> 'w process" where
  "invoke c s = call (fst c) (snd c) s"

subsection \<open>The route set of the specification\<close>

text \<open>
  The specification's table of registered routes, as (method, path) pairs; the
  code's own table is \<open>urlpatterns\<close>.
\<close>

definition spec_registered :: "(string \<times> string) list" where
  "spec_registered = [(''GET'', ''/ping/''), (''GET'', ''/health/'')]"

section \<open>Evaluation of the two views\<close>

lemma ping_eval:
  \<open>ping request s =
     (Inr \<lparr>status_code = 200, headers = [(''Content-Type'', ''application/json'')],
           content = ''{"message": "pong"}''\<rparr>, s)\<close>
  by (simp add: ping_def JsonResponse_def encode_str_def escape_char_def)

lemma health_eval:
  \<open>health request s =
     (Inr \<lparr>status_code = 200, headers = [(''Content-Type'', ''application/json'')],
           content = ''{"status": "ok"}''\<rparr>, s)\<close>
  by (simp add: health_def JsonResponse_def encode_str_def escape_char_def)

lemma call_state: "snd (call v request s) = s"
  by (cases v) (simp_all add: ping_eval health_eval)

lemma call_result: "fst (call v request s) = fst (call v request' s')"
  by (cases v) (simp_all add: ping_eval health_eval)

lemma call_returns: "\<exists>response. fst (call v request s) = Inr response"
  by (cases v) (simp_all add: ping_eval health_eval)



section \<open>URL resolution\<close>

text \<open>Both routes of \<open>urlpatterns\<close> are literal, so string equality is their match.\<close>

lemma urlpatterns_literal: "list_all literal_route urlpatterns"
  by (simp add: urlpatterns_def path_def literal_route_def)

lemma resolve_patterns_Inl:
  "(resolve_patterns ps x = Inl e) = (e = Resolver404 \<and> x \<notin> route ` set ps)"
  by (induction ps) (auto simp: route_match_def)

lemma resolve_ping:
  "resolve urlpatterns ''/ping/'' = Inr \<lparr>func = views_ping, url_name = ''ping''\<rparr>"
  by (simp add: resolve_def urlpatterns_def path_def route_match_def)

lemma resolve_health:
  "resolve urlpatterns ''/health/'' = Inr \<lparr>func = views_health, url_name = ''health''\<rparr>"
  by (simp add: resolve_def urlpatterns_def path_def route_match_def)

lemma resolve_other:
  "x \<noteq> ''/ping/'' \<Longrightarrow> x \<noteq> ''/health/'' \<Longrightarrow> resolve urlpatterns x = Inl Resolver404"
  by (auto simp: resolve_def urlpatterns_def path_def route_match_def split: list.splits)



section \<open>The handler on the table of \<^verbatim>\<open>urls.py\<close>\<close>

lemma inner_get_response_state: "snd (inner_get_response request s) = s"
proof (cases "resolve (url_patterns s) (path_info request)")
  case (Inl e)
  then show ?thesis by (simp add: inner_get_response_def)
next
  case (Inr m)
  obtain x s' where c: "call (func m) request s = (x, s')"
    by (cases "call (func m) request s")
  from call_state [of "func m" request s] c have "s' = s" by simp
  with Inr c show ?thesis
    by (cases x) (simp_all add: inner_get_response_def)
qed

lemma get_response_state: "snd (get_response request s) = s"
proof -
  obtain response s' where i: "inner_get_response request s = (response, s')"
    by (cases "inner_get_response request s")
  with inner_get_response_state [of request s] have "s' = s" by simp
  with i show ?thesis
    by (cases "process_response request response s") (simp_all add: get_response_def)
qed








section \<open>Runs of the process\<close>

lemma run_state:
  assumes "\<And>i s. snd (step i s) = s"
  shows "snd (run step is s) = s"
proof (induction "is")
  case Nil
  show ?case by simp
next
  case (Cons i "is")
  obtain x s' where a: "step i s = (x, s')" by (cases "step i s")
  with assms [of i s] have b: "s' = s" by simp
  obtain xs s'' where c: "run step is s = (xs, s'')" by (cases "run step is s")
  with Cons have "s'' = s" by simp
  with a b c show ?case by simp
qed

lemma serve_state: "snd (serve rs s) = s"
  unfolding serve_def by (rule run_state) (rule get_response_state)

lemma invoke_state: "snd (invoke c s) = s"
  by (simp add: invoke_def call_state)

section \<open>The two routes\<close>





section \<open>Requests that match no route\<close>




text \<open>
  C4, as the specification states it: resolution fails exactly when no registered
  route matches both the method and the path. For the request POST \<^verbatim>\<open>/ping/\<close> no route
  of the specification's set matches both, and resolution succeeds.
\<close>

theorem resolve_post_ping:
  \<open>\<not> ((resolve urlpatterns
          (path_info \<lparr>http_method = ''POST'', path_info = ''/ping/'', META = [], body = ''''\<rparr>) = Inl Resolver404) =
       ((http_method \<lparr>http_method = ''POST'', path_info = ''/ping/'', META = [], body = ''''\<rparr>,
         path_info \<lparr>http_method = ''POST'', path_info = ''/ping/'', META = [], body = ''''\<rparr>)
          \<notin> set spec_registered))\<close>
  by (simp add: resolve_ping spec_registered_def)

text \<open>
  C4, amended: resolution takes the path alone and compares it, as a whole string,
  with the slash followed by a route; over a table of literal routes it raises
  \<^verbatim>\<open>Resolver404\<close> exactly when no route of the table equals the path in this way. For
  \<open>urlpatterns\<close> these are the paths other than \<^verbatim>\<open>/ping/\<close> and \<^verbatim>\<open>/health/\<close>.
\<close>

theorem resolve_exact_path:
  assumes "list_all literal_route ps"
  shows "(resolve ps x = Inl Resolver404) = (x \<notin> (\<lambda>p. CHR ''/'' # route p) ` set ps) \<and>
         (resolve urlpatterns x = Inl Resolver404) = (x \<notin> {''/ping/'', ''/health/''})"
proof
  show "(resolve ps x = Inl Resolver404) = (x \<notin> (\<lambda>p. CHR ''/'' # route p) ` set ps)"
    by (cases x) (auto simp: resolve_def resolve_patterns_Inl)
  show "(resolve urlpatterns x = Inl Resolver404) = (x \<notin> {''/ping/'', ''/health/''})"
    using resolve_ping resolve_health resolve_other [of x] by auto
qed

theorem resolve_exact_path_witness:
  "list_all literal_route urlpatterns \<and>
   resolve urlpatterns ''/ping'' = Inl Resolver404 \<and>
   resolve urlpatterns ''/ping/x'' = Inl Resolver404 \<and>
   resolve urlpatterns ''ping/'' = Inl Resolver404 \<and>
   resolve urlpatterns ''/Ping/'' = Inl Resolver404 \<and>
   resolve urlpatterns ''/health/'' \<noteq> Inl Resolver404"
proof -
  have l: "list_all literal_route urlpatterns"
    by (rule urlpatterns_literal)
  show ?thesis
    using l resolve_exact_path [OF l, of "''/ping''"] resolve_exact_path [OF l, of "''/ping/x''"]
      resolve_exact_path [OF l, of "''ping/''"] resolve_exact_path [OF l, of "''/Ping/''"]
      resolve_exact_path [OF l, of "''/health/''"]
    by (simp add: urlpatterns_def path_def)
qed

section \<open>The views as functions\<close>

text \<open>
  C6. \<open>ping\<close> and \<open>health\<close> are deterministic, pure and total: any two calls, with
  any two requests in any two states, return the same response; a call leaves the
  state as it found it; and a call returns a response, never an exception.
\<close>

theorem handlers_pure:
  fixes s1 :: "'w process" and s2 :: "'v process"
  shows "fst (ping r1 s1) = fst (ping r2 s2) \<and> fst (health r1 s1) = fst (health r2 s2) \<and>
         snd (ping r1 s1) = s1 \<and> snd (health r1 s1) = s1 \<and>
         (\<exists>response. fst (ping r1 s1) = Inr response) \<and>
         (\<exists>response. fst (health r1 s1) = Inr response)"
  by (simp add: ping_eval health_eval)

text \<open>
  C7. After any number of earlier invocations of the views (the list \<open>prior\<close>, of any
  length), a call of \<open>ping\<close> or of \<open>health\<close> returns what the first call returned, and
  the state has not drifted.
\<close>

theorem repeated_calls:
  "fst (ping r (snd (run invoke prior s))) = fst (ping r0 s) \<and>
   fst (health r (snd (run invoke prior s))) = fst (health r0 s) \<and>
   snd (run invoke prior s) = s"
proof -
  have "snd (run invoke prior s) = s"
    by (rule run_state) (rule invoke_state)
  then show ?thesis
    by (simp add: ping_eval health_eval)
qed

section \<open>The route table over the life of the process\<close>

text \<open>
  C8. In the state reached from startup by serving any list of requests, or by any
  list of view invocations, the URL table is still \<open>urlpatterns\<close>, and no two of its
  routes have the same path (so none have the same method and path).
\<close>

theorem route_table_invariant:
  "distinct (map route (url_patterns (snd (serve rs (startup urlpatterns w))))) \<and>
   url_patterns (snd (serve rs (startup urlpatterns w))) = urlpatterns \<and>
   url_patterns (snd (run invoke cs (startup urlpatterns w))) = urlpatterns"
proof -
  have "snd (run invoke cs (startup urlpatterns w)) = startup urlpatterns w"
    by (rule run_state) (rule invoke_state)
  moreover have "distinct (map route urlpatterns)"
    by (simp add: urlpatterns_def path_def)
  ultimately show ?thesis
    by (simp add: serve_state startup_def)
qed

section \<open>Content type and methods\<close>





end
